theory Spec2Isabelle
  imports Complex_Main
begin

section \<open>Sniphles: phase blocks, their complement, and the per-chromosome driver\<close>

text \<open>
  A shallow embedding of \<^verbatim>\<open>sniphles.py\<close>. Every Python function that the properties
  below talk about is a HOL function of the same name. Exceptions are values of the type
  \<open>error\<close>, returned on the left of a sum.
\<close>

subsection \<open>Python values and errors\<close>

text \<open>
  A tag value read from an alignment record is either a Python \<^verbatim>\<open>int\<close> or a Python
  \<^verbatim>\<open>str\<close>; the labels that the program itself writes (\<^verbatim>\<open>1\<close>, \<^verbatim>\<open>2\<close>, \<^verbatim>\<open>'1'\<close>, \<^verbatim>\<open>'u'\<close>,
  \<^verbatim>\<open>'NOID'\<close>) are of the same two kinds. Python's \<^verbatim>\<open>==\<close> between an int and a str is
  False, and so is the HOL equality between \<open>PyInt n\<close> and \<open>PyStr s\<close>: membership in a
  list (\<^verbatim>\<open>in\<close>) and dictionary lookup are therefore the HOL ones.
\<close>

datatype pyval = PyInt int | PyStr string

datatype error = KeyError | ValueError | IndexError | TypeError | NameError | CalledProcessError

subsection \<open>Reads and phase blocks\<close>

text \<open>
  What the program reads of a \<^verbatim>\<open>pysam\<close> aligned segment: its two reference coordinates and
  the optional tags \<^verbatim>\<open>HP\<close> (haplotype) and \<^verbatim>\<open>PS\<close> (phase set). \<^verbatim>\<open>has_tag\<close> is
  \<open>\<noteq> None\<close>, and \<^verbatim>\<open>get_tag\<close> of an absent tag raises \<^verbatim>\<open>KeyError\<close>.
\<close>

record read =
  reference_start :: int
  reference_end :: int
  HP :: "pyval option"
  PS :: "pyval option"

definition get_tag :: "pyval option \<Rightarrow> error + pyval" where
  "get_tag t = (case t of None \<Rightarrow> Inl KeyError | Some v \<Rightarrow> Inr v)"

text \<open>
  The class \<^verbatim>\<open>PhaseBlock\<close>. Its attributes \<^verbatim>\<open>id\<close>, \<^verbatim>\<open>start\<close>, \<^verbatim>\<open>end\<close>, \<^verbatim>\<open>phase\<close> and
  \<^verbatim>\<open>status\<close> carry the prefix \<open>pb_\<close> here (\<open>id\<close> is a constant of HOL and \<open>end\<close> a
  keyword of Isabelle).
\<close>

record PhaseBlock =
  pb_id :: pyval
  pb_start :: int
  pb_end :: int
  pb_phase :: "pyval list"
  pb_status :: string

subsection \<open>Dictionaries of lists\<close>

text \<open>
  A \<^verbatim>\<open>defaultdict(list)\<close> is an association list in insertion order (the order in which
  \<^verbatim>\<open>keys()\<close> iterates). \<open>dict_extend d k vs\<close> is \<^verbatim>\<open>d[k].extend(vs)\<close>, which creates the
  key when it is missing; \<open>dict_get d k\<close> is \<^verbatim>\<open>d[k]\<close>, the empty list for a missing key.
\<close>

type_synonym ('k, 'v) listdict = "('k \<times> 'v list) list"

fun dict_extend :: "('k, 'v) listdict \<Rightarrow> 'k \<Rightarrow> 'v list \<Rightarrow> ('k, 'v) listdict" where
  "dict_extend [] k vs = [(k, vs)]"
| "dict_extend ((k', ws) # d) k vs =
     (if k' = k then (k', ws @ vs) # d else (k', ws) # dict_extend d k vs)"

fun dict_get :: "('k, 'v) listdict \<Rightarrow> 'k \<Rightarrow> 'v list" where
  "dict_get [] k = []"
| "dict_get ((k', ws) # d) k = (if k' = k then ws else dict_get d k)"

definition dict_keys :: "('k, 'v) listdict \<Rightarrow> 'k list" where
  "dict_keys d = map fst d"

subsection \<open>Minimum and maximum of a Python list\<close>

text \<open>
  \<^verbatim>\<open>np.amin\<close>, \<^verbatim>\<open>np.amax\<close> and the builtin \<^verbatim>\<open>max\<close> raise \<^verbatim>\<open>ValueError\<close> on an empty
  list. Coordinates are unbounded integers: genomic positions are far from the 64-bit
  range in which numpy would hold them.
\<close>

fun amin :: "int list \<Rightarrow> error + int" where
  "amin [] = Inl ValueError"
| "amin (x # xs) = Inr (fold min xs x)"

fun amax :: "int list \<Rightarrow> error + int" where
  "amax [] = Inl ValueError"
| "amax (x # xs) = Inr (fold max xs x)"

subsection \<open>The phase-block detector: \<^verbatim>\<open>check_phase_blocks\<close>\<close>

text \<open>
  The first loop of \<^verbatim>\<open>check_phase_blocks\<close>, over the reads of one chromosome (the list
  \<^verbatim>\<open>bam.fetch(contig=chromosome)\<close> iterates over). A read with an \<^verbatim>\<open>HP\<close> tag and no
  \<^verbatim>\<open>PS\<close> tag raises \<^verbatim>\<open>KeyError\<close>.
\<close>

fun collect_tags ::
  "read list \<Rightarrow> (pyval, pyval) listdict \<Rightarrow> (pyval, int) listdict
     \<Rightarrow> error + ((pyval, pyval) listdict \<times> (pyval, int) listdict)" where
  "collect_tags [] phase_dict coordinate_dict = Inr (phase_dict, coordinate_dict)"
| "collect_tags (r # rs) phase_dict coordinate_dict =
     (if HP r \<noteq> None then
        (case get_tag (PS r) of
           Inl e \<Rightarrow> Inl e
         | Inr ps \<Rightarrow>
            (case get_tag (HP r) of
               Inl e \<Rightarrow> Inl e
             | Inr hp \<Rightarrow>
                 collect_tags rs (dict_extend phase_dict ps [hp])
                   (dict_extend coordinate_dict ps [reference_start r, reference_end r])))
      else collect_tags rs phase_dict coordinate_dict)"

text \<open>
  The body of the second loop: the block of one phase-set identifier. The test is on the
  strings \<^verbatim>\<open>'1'\<close> and \<^verbatim>\<open>'2'\<close>; the labels of a biphasic block are the integers
  \<^verbatim>\<open>[1, 2]\<close>; the label of a monophasic block is the first tag value of the group.
\<close>

definition block_of ::
  "(pyval, pyval) listdict \<Rightarrow> (pyval, int) listdict \<Rightarrow> pyval \<Rightarrow> error + PhaseBlock" where
  "block_of phase_dict coordinate_dict block_identifier =
     (if PyStr ''1'' \<in> set (dict_get phase_dict block_identifier)
         \<and> PyStr ''2'' \<in> set (dict_get phase_dict block_identifier) then
        (case amin (dict_get coordinate_dict block_identifier) of
           Inl e \<Rightarrow> Inl e
         | Inr lo \<Rightarrow>
            (case amax (dict_get coordinate_dict block_identifier) of
               Inl e \<Rightarrow> Inl e
             | Inr hi \<Rightarrow>
                 Inr \<lparr>pb_id = block_identifier, pb_start = lo, pb_end = hi,
                      pb_phase = [PyInt 1, PyInt 2], pb_status = ''biphasic''\<rparr>))
      else
        (case amin (dict_get coordinate_dict block_identifier) of
           Inl e \<Rightarrow> Inl e
         | Inr lo \<Rightarrow>
            (case amax (dict_get coordinate_dict block_identifier) of
               Inl e \<Rightarrow> Inl e
             | Inr hi \<Rightarrow>
                (case dict_get phase_dict block_identifier of
                   [] \<Rightarrow> Inl IndexError
                 | first # _ \<Rightarrow>
                     Inr \<lparr>pb_id = block_identifier, pb_start = lo, pb_end = hi,
                          pb_phase = [first], pb_status = ''monophasic''\<rparr>))))"

fun build_blocks ::
  "(pyval, pyval) listdict \<Rightarrow> (pyval, int) listdict \<Rightarrow> pyval list \<Rightarrow> PhaseBlock list
     \<Rightarrow> error + PhaseBlock list" where
  "build_blocks phase_dict coordinate_dict [] phase_blocks = Inr phase_blocks"
| "build_blocks phase_dict coordinate_dict (k # ks) phase_blocks =
     (case block_of phase_dict coordinate_dict k of
        Inl e \<Rightarrow> Inl e
      | Inr b \<Rightarrow> build_blocks phase_dict coordinate_dict ks (phase_blocks @ [b]))"

text \<open>\<^verbatim>\<open>sorted(..., key=lambda x: x.start)\<close> is a stable sort, as \<open>sort_key\<close> is.\<close>

definition check_phase_blocks :: "read list \<Rightarrow> error + PhaseBlock list" where
  "check_phase_blocks bam =
     (case collect_tags bam [] [] of
        Inl e \<Rightarrow> Inl e
      | Inr (phase_dict, coordinate_dict) \<Rightarrow>
         (case build_blocks phase_dict coordinate_dict (dict_keys phase_dict) [] of
            Inl e \<Rightarrow> Inl e
          | Inr phase_blocks \<Rightarrow> Inr (sort_key pb_start phase_blocks)))"

subsection \<open>The interval complementer: \<^verbatim>\<open>get_unphased_blocks\<close>\<close>

text \<open>
  The loop over \<^verbatim>\<open>start_positions\<close>, with the two lists it appends to. The list of start
  positions is \<^verbatim>\<open>sorted([block.start for block in phase_blocks])\<close>: it keeps a start as
  often as blocks share it.
\<close>

fun walk_starts ::
  "PhaseBlock list \<Rightarrow> int list \<Rightarrow> int list \<Rightarrow> int list \<Rightarrow> error + (int list \<times> int list)" where
  "walk_starts phase_blocks [] unphased_intervals_starts unphased_intervals_ends =
     Inr (unphased_intervals_starts, unphased_intervals_ends)"
| "walk_starts phase_blocks (start # rest) unphased_intervals_starts unphased_intervals_ends =
     (case amax (map pb_end (filter (\<lambda>block. pb_start block = start) phase_blocks)) of
        Inl e \<Rightarrow> Inl e
      | Inr max_end_position \<Rightarrow>
          walk_starts phase_blocks rest
            (unphased_intervals_starts @ [max_end_position])
            (unphased_intervals_ends @ [start]))"

definition unphased_block :: "int \<times> int \<Rightarrow> PhaseBlock" where
  "unphased_block interval =
     \<lparr>pb_id = PyStr ''NOID'', pb_start = fst interval, pb_end = snd interval,
      pb_phase = [PyStr ''u''], pb_status = ''unphased''\<rparr>"

definition get_unphased_blocks :: "PhaseBlock list \<Rightarrow> int \<Rightarrow> error + PhaseBlock list" where
  "get_unphased_blocks phase_blocks chromosome_end_position =
     (case walk_starts phase_blocks (sort (map pb_start phase_blocks)) [0] [] of
        Inl e \<Rightarrow> Inl e
      | Inr (unphased_intervals_starts, unphased_intervals_ends) \<Rightarrow>
          Inr (sort_key pb_start
                 (map unphased_block
                    (filter (\<lambda>interval. fst interval \<noteq> snd interval)
                       (zip unphased_intervals_starts
                            (unphased_intervals_ends @ [chromosome_end_position]))))))"

subsection \<open>The segment materializer: \<^verbatim>\<open>make_bams\<close>\<close>

text \<open>
  Modelled from the spec: the region query of the alignment source (\<^verbatim>\<open>bam.fetch\<close> of
  \<^verbatim>\<open>pysam\<close>, a library outside this repository) yields, in file order, the reads whose
  span \<open>[reference_start, reference_end)\<close> intersects the half-open region
  \<open>[start, end)\<close>, that is, shares a base with it. A region whose start is not before
  its end holds no base and yields no read.
\<close>

definition intersects :: "read \<Rightarrow> int \<Rightarrow> int \<Rightarrow> bool" where
  "intersects r start end' = (max start (reference_start r) < min end' (reference_end r))"

definition fetch :: "read list \<Rightarrow> int \<Rightarrow> int \<Rightarrow> read list" where
  "fetch bam start end' = filter (\<lambda>r. intersects r start end') bam"

text \<open>
  \<^verbatim>\<open>make_bams\<close> writes one temporary alignment file per label of the block and returns
  their paths, in the order of \<^verbatim>\<open>phase_block.phase\<close>. A temporary file is represented
  here by the list of reads written to it.
\<close>

definition make_bams :: "read list \<Rightarrow> PhaseBlock \<Rightarrow> read list list" where
  "make_bams bam phase_block =
     map (\<lambda>phase.
            if phase = PyStr ''u'' then
              fetch bam (pb_start phase_block) (pb_end phase_block)
            else
              filter (\<lambda>r. HP r \<noteq> None \<and> get_tag (HP r) = Inr phase)
                (fetch bam (pb_start phase_block) (pb_end phase_block)))
         (pb_phase phase_block)"

subsection \<open>Temporary files and external tools\<close>

text \<open>
  The part of the outside world that \<^verbatim>\<open>concat_vcf\<close> touches: how many temporary files
  \<^verbatim>\<open>tempfile.mkstemp\<close> has created, the invocations of the concatenate-and-sort tool
  (input files and output file of each), and the files removed with \<^verbatim>\<open>os.remove\<close>.
\<close>

record world =
  tmp_count :: nat
  invoked :: "(string list \<times> string) list"
  removed :: "string list"

text \<open>The decimal numeral of a natural number, which tells temporary names apart.\<close>

fun decimal :: "nat \<Rightarrow> string" where
  "decimal n =
     (let last_digit = ''0123456789'' ! (n mod 10)
      in if n div 10 = 0 then [last_digit] else decimal (n div 10) @ [last_digit])"

text \<open>
  \<^verbatim>\<open>tempfile.mkstemp(suffix=...)[1]\<close>: a path no earlier call has returned. The random
  part of the name is the number of the call.
\<close>

definition mkstemp :: "string \<Rightarrow> world \<Rightarrow> string \<times> world" where
  "mkstemp suffix w =
     (''/tmp/tmp'' @ decimal (tmp_count w) @ suffix, w\<lparr>tmp_count := Suc (tmp_count w)\<rparr>)"

text \<open>
  The default value of the parameter \<^verbatim>\<open>output\<close> of \<^verbatim>\<open>concat_vcf\<close> is the expression
  \<^verbatim>\<open>tempfile.mkstemp(suffix=".vcf")[1]\<close>. Python evaluates it when the \<^verbatim>\<open>def\<close> statement
  runs, that is when the module is loaded; \<open>define_concat_vcf\<close> is that evaluation, and
  its result is the argument \<open>default_output\<close> of every later call.
\<close>

definition define_concat_vcf :: "world \<Rightarrow> string \<times> world" where
  "define_concat_vcf w = mkstemp ''.vcf'' w"

text \<open>
  \<^verbatim>\<open>concat_vcf(vcfs, output=...)\<close>. An element of \<^verbatim>\<open>vcfs\<close> is a path or \<^verbatim>\<open>None\<close>
  (\<^verbatim>\<open>' '.join\<close> raises \<^verbatim>\<open>TypeError\<close> on \<^verbatim>\<open>None\<close>); \<open>output = None\<close> is a call that
  omits the argument; \<open>tool\<close> tells whether the external tool exits with status zero on
  the given inputs (\<^verbatim>\<open>check_output\<close> raises \<^verbatim>\<open>CalledProcessError\<close> otherwise). The
  result \<open>Inr None\<close> is Python's \<^verbatim>\<open>None\<close>.
\<close>

definition concat_vcf ::
  "(string list \<Rightarrow> string \<Rightarrow> bool) \<Rightarrow> string \<Rightarrow> string option list \<Rightarrow> string option \<Rightarrow> world
     \<Rightarrow> (error + string option) \<times> world" where
  "concat_vcf tool default_output vcfs output w =
     (let out = (case output of None \<Rightarrow> default_output | Some p \<Rightarrow> p) in
      if vcfs \<noteq> [] then
        (if None \<in> set vcfs then (Inl TypeError, w)
         else
           (let w1 = w\<lparr>invoked := invoked w @ [(map the vcfs, out)]\<rparr> in
            if tool (map the vcfs) out then
              (Inr (Some out), w1\<lparr>removed := removed w1 @ map the vcfs\<rparr>)
            else (Inl CalledProcessError, w1)))
      else (Inr None, w))"

subsection \<open>Calls with positional arguments\<close>

text \<open>
  The values passed at the two call sites of \<^verbatim>\<open>main\<close> whose number of arguments matters:
  a temporary alignment file (its reads), a string, or \<^verbatim>\<open>None\<close>. Calling a Python
  function of \<open>n\<close> parameters without defaults with another number of positional arguments
  raises \<^verbatim>\<open>TypeError\<close> before the body runs.
\<close>

datatype arg = ArgBam "read list" | ArgStr string | ArgNone

definition call_positional :: "nat \<Rightarrow> arg list \<Rightarrow> (arg list \<Rightarrow> error + 'a) \<Rightarrow> error + 'a" where
  "call_positional n args body = (if length args = n then body args else Inl TypeError)"

text \<open>
  \<^verbatim>\<open>def sniffles(tmpdvcf, tmpbam, status)\<close>: three parameters. Its body formats the command
  line with the name \<^verbatim>\<open>s\<close>, which is bound nowhere in the module: \<^verbatim>\<open>NameError\<close>.
\<close>

definition sniffles :: "arg list \<Rightarrow> error + string" where
  "sniffles args = call_positional 3 args (\<lambda>_. Inl NameError)"

text \<open>\<^verbatim>\<open>def merge_haplotypes(H1, H2)\<close>: two parameters, and the body \<^verbatim>\<open>pass\<close>.\<close>

definition merge_haplotypes :: "arg list \<Rightarrow> error + arg" where
  "merge_haplotypes args = call_positional 2 args (\<lambda>_. Inr ArgNone)"

definition arg_of_path :: "string option \<Rightarrow> arg" where
  "arg_of_path p = (case p of None \<Rightarrow> ArgNone | Some s \<Rightarrow> ArgStr s)"

subsection \<open>The loops of \<^verbatim>\<open>main\<close> for one chromosome\<close>

text \<open>
  \<^verbatim>\<open>variant_files\<close> is a \<^verbatim>\<open>defaultdict(list)\<close> that is only indexed, never iterated: a
  function from keys to lists, \<open>[]\<close> everywhere at first.

  The loops take two parameters: \<open>caller\<close>, what the call \<^verbatim>\<open>sniffles(tmpbam, block.status)\<close>
  yields for its list of arguments (the program itself is the instance \<open>caller = sniffles\<close>),
  and \<open>get_coverage\<close>, the mean depth that the external depth tool reports for a read set
  and a block. A depth is a real number: the comparison of a finite floating-point value
  with \<^verbatim>\<open>10\<close> is the comparison of the real numbers they denote. The removal of the
  temporary alignment file at the end of the inner loop body leaves no trace here, a read
  set being its own file.
\<close>

type_synonym variant_files = "pyval \<Rightarrow> string list"

definition gate_step ::
  "(arg list \<Rightarrow> error + string) \<Rightarrow> (read list \<Rightarrow> PhaseBlock \<Rightarrow> real) \<Rightarrow> PhaseBlock
     \<Rightarrow> read list \<Rightarrow> pyval \<Rightarrow> variant_files \<Rightarrow> error + variant_files" where
  "gate_step caller get_coverage block tmpbam phase variant_files =
     (let cov = get_coverage tmpbam block in
      if cov \<ge> 10 then
        (case caller [ArgBam tmpbam, ArgStr (pb_status block)] of
           Inl e \<Rightarrow> Inl e
         | Inr tmpvcf \<Rightarrow> Inr (variant_files(phase := variant_files phase @ [tmpvcf])))
      else Inr variant_files)"

fun block_loop ::
  "(arg list \<Rightarrow> error + string) \<Rightarrow> (read list \<Rightarrow> PhaseBlock \<Rightarrow> real) \<Rightarrow> PhaseBlock
     \<Rightarrow> (read list \<times> pyval) list \<Rightarrow> variant_files \<Rightarrow> error + variant_files" where
  "block_loop caller get_coverage block [] variant_files = Inr variant_files"
| "block_loop caller get_coverage block ((tmpbam, phase) # rest) variant_files =
     (case gate_step caller get_coverage block tmpbam phase variant_files of
        Inl e \<Rightarrow> Inl e
      | Inr variant_files' \<Rightarrow> block_loop caller get_coverage block rest variant_files')"

fun chromosome_loop ::
  "(arg list \<Rightarrow> error + string) \<Rightarrow> (read list \<Rightarrow> PhaseBlock \<Rightarrow> real) \<Rightarrow> read list
     \<Rightarrow> PhaseBlock list \<Rightarrow> variant_files \<Rightarrow> error + variant_files" where
  "chromosome_loop caller get_coverage bam [] variant_files = Inr variant_files"
| "chromosome_loop caller get_coverage bam (block # rest) variant_files =
     (case block_loop caller get_coverage block
             (zip (make_bams bam block) (pb_phase block)) variant_files of
        Inl e \<Rightarrow> Inl e
      | Inr variant_files' \<Rightarrow> chromosome_loop caller get_coverage bam rest variant_files')"

text \<open>
  Lines 36 to 49 of \<^verbatim>\<open>main\<close>: the blocks of the chromosome (phased, then unphased) and the
  accumulation of the call-result files.
\<close>

definition accumulate ::
  "(arg list \<Rightarrow> error + string) \<Rightarrow> (read list \<Rightarrow> PhaseBlock \<Rightarrow> real) \<Rightarrow> read list \<Rightarrow> int
     \<Rightarrow> error + variant_files" where
  "accumulate caller get_coverage bam reference_length =
     (case check_phase_blocks bam of
        Inl e \<Rightarrow> Inl e
      | Inr phase_blocks \<Rightarrow>
         (case get_unphased_blocks phase_blocks reference_length of
            Inl e \<Rightarrow> Inl e
          | Inr unphased \<Rightarrow>
              chromosome_loop caller get_coverage bam (phase_blocks @ unphased) (\<lambda>_. [])))"

text \<open>
  The three lists that lines 50 to 52 hand to \<^verbatim>\<open>concat_vcf\<close>:
  \<^verbatim>\<open>variant_files['1']\<close>, \<^verbatim>\<open>variant_files['2']\<close> and \<^verbatim>\<open>variant_files['u']\<close>.
\<close>

definition haplotype_lists ::
  "(arg list \<Rightarrow> error + string) \<Rightarrow> (read list \<Rightarrow> PhaseBlock \<Rightarrow> real) \<Rightarrow> read list \<Rightarrow> int
     \<Rightarrow> error + (string list \<times> string list \<times> string list)" where
  "haplotype_lists caller get_coverage bam reference_length =
     (case accumulate caller get_coverage bam reference_length of
        Inl e \<Rightarrow> Inl e
      | Inr variant_files \<Rightarrow>
          Inr (variant_files (PyStr ''1''), variant_files (PyStr ''2''),
               variant_files (PyStr ''u'')))"

text \<open>
  Lines 50 to 53: the three concatenations, each omitting \<^verbatim>\<open>output\<close>, and the call
  \<^verbatim>\<open>merge_haplotypes(h1_vcf, h2_vcf, unph_vcf)\<close> with its three arguments.
\<close>

definition merge_chromosome ::
  "(string list \<Rightarrow> string \<Rightarrow> bool) \<Rightarrow> string \<Rightarrow> string list \<times> string list \<times> string list \<Rightarrow> world
     \<Rightarrow> (error + arg) \<times> world" where
  "merge_chromosome tool default_output files w =
     (case files of (l1, l2, lu) \<Rightarrow>
       (case concat_vcf tool default_output (map Some l1) None w of
          (Inl e, w1) \<Rightarrow> (Inl e, w1)
        | (Inr h1_vcf, w1) \<Rightarrow>
           (case concat_vcf tool default_output (map Some l2) None w1 of
              (Inl e, w2) \<Rightarrow> (Inl e, w2)
            | (Inr h2_vcf, w2) \<Rightarrow>
               (case concat_vcf tool default_output (map Some lu) None w2 of
                  (Inl e, w3) \<Rightarrow> (Inl e, w3)
                | (Inr unph_vcf, w3) \<Rightarrow>
                    (merge_haplotypes
                       [arg_of_path h1_vcf, arg_of_path h2_vcf, arg_of_path unph_vcf], w3)))))"

subsection \<open>Coverage of a base by a list of blocks\<close>

text \<open>
  The number of blocks of a list whose half-open span \<open>[start, end)\<close> holds the base
  \<open>x\<close>. The blocks of a chromosome of length \<open>n\<close> partition \<open>[0, n)\<close> when every base of
  \<open>[0, n)\<close> is counted once and every other position not at all.
\<close>

definition cover_count :: "PhaseBlock list \<Rightarrow> int \<Rightarrow> nat" where
  "cover_count blocks x = length (filter (\<lambda>b. pb_start b \<le> x \<and> x < pb_end b) blocks)"

definition partitions :: "PhaseBlock list \<Rightarrow> int \<Rightarrow> bool" where
  "partitions blocks n = (\<forall>x. cover_count blocks x = (if 0 \<le> x \<and> x < n then 1 else 0))"

text \<open>Two blocks whose spans do not overlap: one ends where the other starts, or before.\<close>

definition apart :: "PhaseBlock \<Rightarrow> PhaseBlock \<Rightarrow> bool" where
  "apart a b = (pb_end a \<le> pb_start b \<or> pb_end b \<le> pb_start a)"

text \<open>
  Blocks in a list that are non-empty, lie within the chromosome and are pairwise apart.
\<close>

definition well_separated :: "PhaseBlock list \<Rightarrow> int \<Rightarrow> bool" where
  "well_separated blocks n =
     (list_all (\<lambda>b. 0 \<le> pb_start b \<and> pb_start b < pb_end b \<and> pb_end b \<le> n) blocks
      \<and> sorted_wrt apart blocks)"

text \<open>
  The same condition along a list in ascending order of start: from \<open>lo\<close> on, each block
  starts at or after the point reached, is non-empty, and the last one ends by \<open>n\<close>.
\<close>

fun chain :: "int \<Rightarrow> PhaseBlock list \<Rightarrow> int \<Rightarrow> bool" where
  "chain lo [] n = (lo \<le> n)"
| "chain lo (b # bs) n = (lo \<le> pb_start b \<and> pb_start b < pb_end b \<and> chain (pb_end b) bs n)"

text \<open>The candidate intervals that \<^verbatim>\<open>zip\<close> pairs up when no two blocks share a start.\<close>

definition gaps :: "int \<Rightarrow> PhaseBlock list \<Rightarrow> int \<Rightarrow> (int \<times> int) list" where
  "gaps lo bs n = zip (lo # map pb_end bs) (map pb_start bs @ [n])"

section \<open>Properties\<close>

subsection \<open>The complementer always returns\<close>

lemma amax_Inl_iff: "amax xs = Inl e \<longleftrightarrow> xs = [] \<and> e = ValueError"
  by (cases xs) auto

lemma walk_starts_total:
  "set ss \<subseteq> pb_start ` set pbs \<Longrightarrow> \<exists>us' ue'. walk_starts pbs ss us ue = Inr (us', ue')"
proof (induction ss arbitrary: us ue)
  case Nil
  then show ?case by simp
next
  case (Cons s ss)
  from Cons.prems obtain b where b: "b \<in> set pbs" "pb_start b = s" by auto
  then have "filter (\<lambda>block. pb_start block = s) pbs \<noteq> []"
    by (auto simp: filter_empty_conv)
  then obtain m where "amax (map pb_end (filter (\<lambda>block. pb_start block = s) pbs)) = Inr m"
    by (cases "amax (map pb_end (filter (\<lambda>block. pb_start block = s) pbs))")
       (auto simp: amax_Inl_iff)
  moreover from Cons.prems have "set ss \<subseteq> pb_start ` set pbs" by simp
  ultimately show ?case using Cons.IH by simp
qed

lemma get_unphased_blocks_total: "\<exists>ubs. get_unphased_blocks pbs n = Inr ubs"
proof -
  have "set (sort (map pb_start pbs)) \<subseteq> pb_start ` set pbs" by simp
  from walk_starts_total[OF this, of "[0]" "[]"] show ?thesis
    by (auto simp: get_unphased_blocks_def)
qed

lemma get_unphased_blocks_nondegenerate:
  "get_unphased_blocks pbs n = Inr ubs \<Longrightarrow> u \<in> set ubs \<Longrightarrow> pb_start u \<noteq> pb_end u"
  by (auto simp: get_unphased_blocks_def unphased_block_def split: sum.splits)

lemma get_unphased_blocks_empty:
  "get_unphased_blocks [] n = Inr (if 0 = n then [] else [unphased_block (0, n)])"
  by (simp add: get_unphased_blocks_def)

subsection \<open>The complementer on blocks with distinct starts\<close>

lemma filter_start_single:
  "distinct (map pb_start pbs) \<Longrightarrow> b \<in> set pbs \<Longrightarrow>
   filter (\<lambda>block. pb_start block = pb_start b) pbs = [b]"
proof (induction pbs)
  case Nil
  then show ?case by simp
next
  case (Cons a pbs)
  show ?case
  proof (cases "a = b")
    case True
    from Cons.prems True have "pb_start b \<notin> pb_start ` set pbs" by simp
    then have "\<forall>c\<in>set pbs. pb_start c \<noteq> pb_start b" by (metis imageI)
    then have "filter (\<lambda>block. pb_start block = pb_start b) pbs = []"
      by (simp add: filter_empty_conv)
    with True show ?thesis by simp
  next
    case False
    with Cons.prems have "b \<in> set pbs" "pb_start a \<noteq> pb_start b" by auto
    with Cons show ?thesis by simp
  qed
qed

lemma walk_starts_distinct:
  "distinct (map pb_start pbs) \<Longrightarrow> set bs \<subseteq> set pbs \<Longrightarrow>
   walk_starts pbs (map pb_start bs) us ue = Inr (us @ map pb_end bs, ue @ map pb_start bs)"
proof (induction bs arbitrary: us ue)
  case Nil
  then show ?case by simp
next
  case (Cons b bs)
  then have "filter (\<lambda>block. pb_start block = pb_start b) pbs = [b]"
    by (simp add: filter_start_single)
  with Cons show ?case by simp
qed

subsection \<open>Chains of blocks\<close>

lemma chain_le: "chain lo bs n \<Longrightarrow> lo \<le> n"
proof (induction bs arbitrary: lo)
  case Nil
  then show ?case by simp
next
  case (Cons a bs)
  then have "pb_end a \<le> n" by simp
  with Cons.prems show ?case by simp
qed

lemma chain_starts_above: "chain lo bs n \<Longrightarrow> b \<in> set bs \<Longrightarrow> lo \<le> pb_start b"
proof (induction bs arbitrary: lo)
  case Nil
  then show ?case by simp
next
  case (Cons a bs)
  show ?case
  proof (cases "b = a")
    case True
    with Cons.prems show ?thesis by simp
  next
    case False
    with Cons.prems have "b \<in> set bs" "chain (pb_end a) bs n" by auto
    then have "pb_end a \<le> pb_start b" by (rule Cons.IH[rotated])
    with Cons.prems show ?thesis by simp
  qed
qed

lemma chain_starts_above_strict:
  "chain (pb_end a) bs n \<Longrightarrow> pb_start a < pb_end a \<Longrightarrow> b \<in> set bs \<Longrightarrow> pb_start a < pb_start b"
  using chain_starts_above by fastforce

lemma chain_sorted_distinct:
  "chain lo bs n \<Longrightarrow> sorted (map pb_start bs) \<and> distinct (map pb_start bs)"
proof (induction bs arbitrary: lo)
  case Nil
  then show ?case by simp
next
  case (Cons a bs)
  then have "\<forall>b\<in>set bs. pb_start a < pb_start b"
    using chain_starts_above_strict by auto
  with Cons show ?case by force
qed

lemma chain_of_separated:
  "sorted (map pb_start bs) \<Longrightarrow> sorted_wrt apart bs \<Longrightarrow>
   list_all (\<lambda>b. lo \<le> pb_start b \<and> pb_start b < pb_end b \<and> pb_end b \<le> n) bs \<Longrightarrow>
   lo \<le> n \<Longrightarrow> chain lo bs n"
proof (induction bs arbitrary: lo)
  case Nil
  then show ?case by simp
next
  case (Cons a bs)
  have "list_all (\<lambda>b. pb_end a \<le> pb_start b \<and> pb_start b < pb_end b \<and> pb_end b \<le> n) bs"
    unfolding list_all_iff
  proof
    fix b assume b: "b \<in> set bs"
    with Cons.prems have "apart a b" "pb_start a \<le> pb_start b" "pb_start b < pb_end b" "pb_end b \<le> n"
      by (auto simp: list_all_iff)
    then show "pb_end a \<le> pb_start b \<and> pb_start b < pb_end b \<and> pb_end b \<le> n"
      by (auto simp: apart_def)
  qed
  moreover from Cons.prems have "sorted (map pb_start bs)" "sorted_wrt apart bs" "pb_end a \<le> n"
    by auto
  ultimately have "chain (pb_end a) bs n" using Cons.IH by blast
  with Cons.prems show ?case by simp
qed

lemma get_unphased_blocks_chain:
  assumes "chain lo pbs n"
  shows "get_unphased_blocks pbs n =
           Inr (sort_key pb_start (map unphased_block
                  (filter (\<lambda>interval. fst interval \<noteq> snd interval) (gaps 0 pbs n))))"
proof -
  from assms have sd: "sorted (map pb_start pbs)" "distinct (map pb_start pbs)"
    using chain_sorted_distinct by auto
  then have "sort (map pb_start pbs) = map pb_start pbs"
    by (simp add: sorted_sort_id)
  moreover have "walk_starts pbs (map pb_start pbs) [0] [] =
                   Inr ([0] @ map pb_end pbs, [] @ map pb_start pbs)"
    using sd(2) by (rule walk_starts_distinct) simp
  ultimately show ?thesis
    by (simp add: get_unphased_blocks_def gaps_def)
qed

lemma chain_gaps_ordered:
  "chain lo bs n \<Longrightarrow> (s, e) \<in> set (gaps lo bs n) \<Longrightarrow> s \<le> e"
proof (induction bs arbitrary: lo)
  case Nil
  then show ?case by (simp add: gaps_def)
next
  case (Cons b bs)
  have g: "gaps lo (b # bs) n = (lo, pb_start b) # gaps (pb_end b) bs n"
    by (simp add: gaps_def)
  from Cons show ?case unfolding g by auto
qed

subsection \<open>Counting the blocks over a base\<close>

lemma cover_count_append: "cover_count (xs @ ys) x = cover_count xs x + cover_count ys x"
  by (simp add: cover_count_def)

lemma cover_count_sort_key: "cover_count (sort_key f xs) x = cover_count xs x"
  by (simp add: cover_count_def filter_sort)

lemma cover_count_gaps:
  "cover_count (map unphased_block (filter (\<lambda>interval. fst interval \<noteq> snd interval) zs)) x
   = length (filter (\<lambda>(s, e). s \<le> x \<and> x < e) zs)"
proof (induction zs)
  case Nil
  then show ?case by (simp add: cover_count_def)
next
  case (Cons z zs)
  then show ?case
    by (cases z) (auto simp: cover_count_def unphased_block_def)
qed

lemma chain_cover:
  "chain lo bs n \<Longrightarrow>
   cover_count bs x + length (filter (\<lambda>(s, e). s \<le> x \<and> x < e) (gaps lo bs n))
   = (if lo \<le> x \<and> x < n then 1 else 0)"
proof (induction bs arbitrary: lo)
  case Nil
  then show ?case by (simp add: gaps_def cover_count_def)
next
  case (Cons b bs)
  then have c: "chain (pb_end b) bs n" and le: "lo \<le> pb_start b" "pb_start b < pb_end b"
    by auto
  from c have en: "pb_end b \<le> n" by (rule chain_le)
  have g: "gaps lo (b # bs) n = (lo, pb_start b) # gaps (pb_end b) bs n"
    by (simp add: gaps_def)
  have cc: "cover_count (b # bs) x =
              (if pb_start b \<le> x \<and> x < pb_end b then 1 else 0) + cover_count bs x"
    by (simp add: cover_count_def)
  from Cons.IH[OF c] le en show ?case
    unfolding g cc by (auto split: if_splits)
qed

lemma partitions_chain:
  assumes "chain 0 pbs n"
  shows "\<exists>unphased. get_unphased_blocks pbs n = Inr unphased \<and> partitions (pbs @ unphased) n"
proof -
  let ?u = "sort_key pb_start (map unphased_block
              (filter (\<lambda>interval. fst interval \<noteq> snd interval) (gaps 0 pbs n)))"
  have "get_unphased_blocks pbs n = Inr ?u"
    using assms by (rule get_unphased_blocks_chain)
  moreover have "partitions (pbs @ ?u) n"
    unfolding partitions_def cover_count_append cover_count_sort_key cover_count_gaps
    using chain_cover[OF assms] by simp
  ultimately show ?thesis by blast
qed

lemma check_phase_blocks_sorted:
  "check_phase_blocks bam = Inr pbs \<Longrightarrow> sorted (map pb_start pbs)"
  by (auto simp: check_phase_blocks_def split: sum.splits)

subsection \<open>Reads that intersect a region\<close>

lemma intersects_iff_shared_base:
  "intersects r start end' \<longleftrightarrow>
     (\<exists>x. start \<le> x \<and> x < end' \<and> reference_start r \<le> x \<and> x < reference_end r)"
proof
  assume "intersects r start end'"
  then have "max start (reference_start r) < min end' (reference_end r)"
    by (simp add: intersects_def)
  then show "\<exists>x. start \<le> x \<and> x < end' \<and> reference_start r \<le> x \<and> x < reference_end r"
    by (intro exI[of _ "max start (reference_start r)"]) auto
next
  assume "\<exists>x. start \<le> x \<and> x < end' \<and> reference_start r \<le> x \<and> x < reference_end r"
  then show "intersects r start end'"
    by (auto simp: intersects_def)
qed

subsection \<open>Tags that are not the string \<^verbatim>\<open>'1'\<close>\<close>

lemma dict_extend_values:
  "set (dict_get (dict_extend d k vs) k') \<subseteq> set (dict_get d k') \<union> set vs"
  by (induction d k vs rule: dict_extend.induct) auto

lemma collect_tags_values:
  "collect_tags rs pd cd = Inr (pd', cd') \<Longrightarrow>
   set (dict_get pd' k) \<subseteq> set (dict_get pd k) \<union> {hp. \<exists>r\<in>set rs. HP r = Some hp}"
proof (induction rs arbitrary: pd cd)
  case Nil
  then show ?case by simp
next
  case (Cons r rs)
  show ?case
  proof (cases "HP r")
    case None
    with Cons show ?thesis by auto
  next
    case (Some hp)
    with Cons.prems obtain ps where ps: "PS r = Some ps"
      and rest: "collect_tags rs (dict_extend pd ps [hp])
                   (dict_extend cd ps [reference_start r, reference_end r]) = Inr (pd', cd')"
      by (auto simp: get_tag_def split: option.splits)
    from Cons.IH[OF rest]
    have "set (dict_get pd' k) \<subseteq> set (dict_get (dict_extend pd ps [hp]) k)
            \<union> {hp. \<exists>r\<in>set rs. HP r = Some hp}" .
    moreover have "set (dict_get (dict_extend pd ps [hp]) k) \<subseteq> set (dict_get pd k) \<union> {hp}"
      using dict_extend_values[of pd ps "[hp]" k] by simp
    ultimately show ?thesis using Some by auto
  qed
qed

lemma block_of_monophasic:
  "PyStr ''1'' \<notin> set (dict_get pd k) \<Longrightarrow> block_of pd cd k = Inr b \<Longrightarrow>
   pb_status b = ''monophasic''"
  by (auto simp: block_of_def split: sum.splits list.splits)

lemma build_blocks_monophasic:
  "build_blocks pd cd ks acc = Inr bs \<Longrightarrow> \<forall>k. PyStr ''1'' \<notin> set (dict_get pd k) \<Longrightarrow>
   \<forall>b\<in>set acc. pb_status b = ''monophasic'' \<Longrightarrow> \<forall>b\<in>set bs. pb_status b = ''monophasic''"
proof (induction ks arbitrary: acc)
  case Nil
  then show ?case by simp
next
  case (Cons k ks)
  from Cons.prems(1) obtain b where b: "block_of pd cd k = Inr b"
    and rest: "build_blocks pd cd ks (acc @ [b]) = Inr bs"
    by (auto split: sum.splits)
  from b Cons.prems(2) have "pb_status b = ''monophasic''"
    using block_of_monophasic by blast
  with Cons.prems(3) have "\<forall>c\<in>set (acc @ [b]). pb_status c = ''monophasic''" by simp
  from Cons.IH[OF rest Cons.prems(2) this] show ?case .
qed

text \<open>
  When no read of the chromosome carries the string \<^verbatim>\<open>'1'\<close> as its haplotype tag (so,
  whenever the tags are integers), every block that the detector emits is monophasic.
\<close>

lemma integer_tags_all_monophasic:
  assumes "check_phase_blocks bam = Inr pbs"
    and "\<forall>r\<in>set bam. HP r \<noteq> Some (PyStr ''1'')"
  shows "\<forall>b\<in>set pbs. pb_status b = ''monophasic''"
proof -
  from assms(1) obtain pd cd bs where c: "collect_tags bam [] [] = Inr (pd, cd)"
    and bb: "build_blocks pd cd (dict_keys pd) [] = Inr bs"
    and pbs: "pbs = sort_key pb_start bs"
    by (auto simp: check_phase_blocks_def split: sum.splits)
  have "\<forall>k. PyStr ''1'' \<notin> set (dict_get pd k)"
  proof
    fix k
    from collect_tags_values[OF c, of k] assms(2)
    show "PyStr ''1'' \<notin> set (dict_get pd k)" by auto
  qed
  with bb have "\<forall>b\<in>set bs. pb_status b = ''monophasic''"
    using build_blocks_monophasic[of pd cd "dict_keys pd" "[]" bs] by simp
  with pbs show ?thesis by simp
qed

subsection \<open>The driver of the program at the gate\<close>

text \<open>
  With the program's own call \<^verbatim>\<open>sniffles(tmpbam, block.status)\<close>, two arguments for three
  parameters, a read set that passes the gate ends the run with \<^verbatim>\<open>TypeError\<close>.
\<close>

lemma gate_step_sniffles:
  "gate_step sniffles get_coverage block tmpbam phase variant_files =
     (if get_coverage tmpbam block < 10 then Inr variant_files else Inl TypeError)"
  by (simp add: gate_step_def sniffles_def call_positional_def Let_def)

lemma concat_vcf_tmp_count:
  "tmp_count (snd (concat_vcf tool default_output vcfs output w)) = tmp_count w"
  by (simp add: concat_vcf_def Let_def)

section \<open>The claims\<close>

subsection \<open>C1: the blocks of a chromosome partition it\<close>

text \<open>
  Claim C1 as stated, for every chromosome, fails: two phase sets whose reads overlap
  (reads \<open>[100, 300)\<close> of phase set 100 and \<open>[200, 400)\<close> of phase set 200, chromosome
  length 500) give the phased blocks \<open>[100, 300)\<close> and \<open>[200, 400)\<close> and the unphased
  blocks \<open>(0, 100)\<close>, \<open>(300, 200)\<close> and \<open>(400, 500)\<close>; base 250 lies in two blocks.
\<close>

theorem overlapping_blocks_counterexample:
  "check_phase_blocks
     [\<lparr>reference_start = 100, reference_end = 300, HP = Some (PyInt 1), PS = Some (PyInt 100)\<rparr>,
      \<lparr>reference_start = 200, reference_end = 400, HP = Some (PyInt 2), PS = Some (PyInt 200)\<rparr>]
   = Inr [\<lparr>pb_id = PyInt 100, pb_start = 100, pb_end = 300, pb_phase = [PyInt 1],
            pb_status = ''monophasic''\<rparr>,
          \<lparr>pb_id = PyInt 200, pb_start = 200, pb_end = 400, pb_phase = [PyInt 2],
            pb_status = ''monophasic''\<rparr>]
   \<and> get_unphased_blocks
        [\<lparr>pb_id = PyInt 100, pb_start = 100, pb_end = 300, pb_phase = [PyInt 1],
            pb_status = ''monophasic''\<rparr>,
         \<lparr>pb_id = PyInt 200, pb_start = 200, pb_end = 400, pb_phase = [PyInt 2],
            pb_status = ''monophasic''\<rparr>] 500
     = Inr [unphased_block (0, 100), unphased_block (300, 200), unphased_block (400, 500)]
   \<and> cover_count
        ([\<lparr>pb_id = PyInt 100, pb_start = 100, pb_end = 300, pb_phase = [PyInt 1],
             pb_status = ''monophasic''\<rparr>,
          \<lparr>pb_id = PyInt 200, pb_start = 200, pb_end = 400, pb_phase = [PyInt 2],
             pb_status = ''monophasic''\<rparr>]
         @ [unphased_block (0, 100), unphased_block (300, 200), unphased_block (400, 500)]) 250 = 2
   \<and> \<not> partitions
        ([\<lparr>pb_id = PyInt 100, pb_start = 100, pb_end = 300, pb_phase = [PyInt 1],
             pb_status = ''monophasic''\<rparr>,
          \<lparr>pb_id = PyInt 200, pb_start = 200, pb_end = 400, pb_phase = [PyInt 2],
             pb_status = ''monophasic''\<rparr>]
         @ [unphased_block (0, 100), unphased_block (300, 200), unphased_block (400, 500)]) 500"
proof -
  let ?all = "[\<lparr>pb_id = PyInt 100, pb_start = 100, pb_end = 300, pb_phase = [PyInt 1],
             pb_status = ''monophasic''\<rparr>,
          \<lparr>pb_id = PyInt 200, pb_start = 200, pb_end = 400, pb_phase = [PyInt 2],
             pb_status = ''monophasic''\<rparr>]
         @ [unphased_block (0, 100), unphased_block (300, 200), unphased_block (400, 500)]"
  have c: "cover_count ?all 250 = 2"
    by (simp add: cover_count_def unphased_block_def)
  have "\<not> partitions ?all 500"
  proof
    assume "partitions ?all 500"
    then have "cover_count ?all 250 = 1" unfolding partitions_def by simp
    with c show False by simp
  qed
  with c show ?thesis
    by (simp add: check_phase_blocks_def get_tag_def block_of_def dict_keys_def
        get_unphased_blocks_def unphased_block_def)
qed

text \<open>
  Claim C1, amended: when the phased blocks that the detector returns for a chromosome
  are non-empty (start before end), lie within \<open>[0, n]\<close> for the chromosome length \<open>n\<close>
  and are pairwise non-overlapping, the complementer returns, and the phased and unphased
  blocks together hold every base of \<open>[0, n)\<close> exactly once and no other position.
\<close>

theorem blocks_partition_chromosome:
  assumes "check_phase_blocks bam = Inr phase_blocks"
    and "well_separated phase_blocks n"
  shows "\<exists>unphased. get_unphased_blocks phase_blocks n = Inr unphased
           \<and> partitions (phase_blocks @ unphased) n"
proof (cases "0 \<le> n")
  case True
  from assms(1) have "sorted (map pb_start phase_blocks)"
    by (rule check_phase_blocks_sorted)
  with assms(2) True have "chain 0 phase_blocks n"
    by (simp add: well_separated_def chain_of_separated)
  then show ?thesis by (rule partitions_chain)
next
  case False
  with assms(2) have "phase_blocks = []"
    by (cases phase_blocks) (auto simp: well_separated_def)
  with False show ?thesis
    by (simp add: get_unphased_blocks_empty partitions_def cover_count_def unphased_block_def)
qed

text \<open>
  The theorem at the reads \<open>[100, 200)\<close> of phase set 100 and \<open>[300, 400)\<close> of phase
  set 300, on a chromosome of length 500.
\<close>

theorem blocks_partition_chromosome_witness:
  "check_phase_blocks
     [\<lparr>reference_start = 100, reference_end = 200, HP = Some (PyInt 1), PS = Some (PyInt 100)\<rparr>,
      \<lparr>reference_start = 300, reference_end = 400, HP = Some (PyInt 2), PS = Some (PyInt 300)\<rparr>]
   = Inr [\<lparr>pb_id = PyInt 100, pb_start = 100, pb_end = 200, pb_phase = [PyInt 1],
            pb_status = ''monophasic''\<rparr>,
          \<lparr>pb_id = PyInt 300, pb_start = 300, pb_end = 400, pb_phase = [PyInt 2],
            pb_status = ''monophasic''\<rparr>]
   \<and> well_separated
        [\<lparr>pb_id = PyInt 100, pb_start = 100, pb_end = 200, pb_phase = [PyInt 1],
            pb_status = ''monophasic''\<rparr>,
         \<lparr>pb_id = PyInt 300, pb_start = 300, pb_end = 400, pb_phase = [PyInt 2],
            pb_status = ''monophasic''\<rparr>] 500
   \<and> (\<exists>unphased.
         get_unphased_blocks
           [\<lparr>pb_id = PyInt 100, pb_start = 100, pb_end = 200, pb_phase = [PyInt 1],
              pb_status = ''monophasic''\<rparr>,
            \<lparr>pb_id = PyInt 300, pb_start = 300, pb_end = 400, pb_phase = [PyInt 2],
              pb_status = ''monophasic''\<rparr>] 500 = Inr unphased
         \<and> partitions
             ([\<lparr>pb_id = PyInt 100, pb_start = 100, pb_end = 200, pb_phase = [PyInt 1],
                 pb_status = ''monophasic''\<rparr>,
               \<lparr>pb_id = PyInt 300, pb_start = 300, pb_end = 400, pb_phase = [PyInt 2],
                 pb_status = ''monophasic''\<rparr>] @ unphased) 500)"
proof -
  let ?bam = "[\<lparr>reference_start = 100, reference_end = 200, HP = Some (PyInt 1),
                 PS = Some (PyInt 100)\<rparr>,
               \<lparr>reference_start = 300, reference_end = 400, HP = Some (PyInt 2),
                 PS = Some (PyInt 300)\<rparr>]"
  let ?pbs = "[\<lparr>pb_id = PyInt 100, pb_start = 100, pb_end = 200, pb_phase = [PyInt 1],
                 pb_status = ''monophasic''\<rparr>,
               \<lparr>pb_id = PyInt 300, pb_start = 300, pb_end = 400, pb_phase = [PyInt 2],
                 pb_status = ''monophasic''\<rparr>]"
  have a: "check_phase_blocks ?bam = Inr ?pbs"
    by (simp add: check_phase_blocks_def get_tag_def block_of_def dict_keys_def)
  have b: "well_separated ?pbs 500"
    by (simp add: well_separated_def apart_def)
  from blocks_partition_chromosome[OF a b] a b show ?thesis by blast
qed

subsection \<open>C2: phased blocks that share a start\<close>

text \<open>
  Claim C2 says that a start shared by several phased blocks contributes one gap boundary
  and that every unphased block has its start before its end. The complementer walks
  \<^verbatim>\<open>sorted([block.start for block in phase_blocks])\<close>, which keeps the shared start
  twice: for the reads \<open>[100, 200)\<close> of phase set 7 and \<open>[100, 300)\<close> of phase set 8 on
  a chromosome of length 500, the maximum end 300 is appended twice and the unphased
  blocks are \<open>(0, 100)\<close>, \<open>(300, 100)\<close> and \<open>(300, 500)\<close>. The second one starts after
  its end.
\<close>

theorem shared_start_emits_reversed_interval:
  "check_phase_blocks
     [\<lparr>reference_start = 100, reference_end = 200, HP = Some (PyInt 1), PS = Some (PyInt 7)\<rparr>,
      \<lparr>reference_start = 100, reference_end = 300, HP = Some (PyInt 2), PS = Some (PyInt 8)\<rparr>]
   = Inr [\<lparr>pb_id = PyInt 7, pb_start = 100, pb_end = 200, pb_phase = [PyInt 1],
            pb_status = ''monophasic''\<rparr>,
          \<lparr>pb_id = PyInt 8, pb_start = 100, pb_end = 300, pb_phase = [PyInt 2],
            pb_status = ''monophasic''\<rparr>]
   \<and> get_unphased_blocks
        [\<lparr>pb_id = PyInt 7, pb_start = 100, pb_end = 200, pb_phase = [PyInt 1],
            pb_status = ''monophasic''\<rparr>,
         \<lparr>pb_id = PyInt 8, pb_start = 100, pb_end = 300, pb_phase = [PyInt 2],
            pb_status = ''monophasic''\<rparr>] 500
     = Inr [unphased_block (0, 100), unphased_block (300, 100), unphased_block (300, 500)]
   \<and> pb_end (unphased_block (300, 100)) < pb_start (unphased_block (300, 100))"
  by (simp add: check_phase_blocks_def get_tag_def block_of_def dict_keys_def
      get_unphased_blocks_def unphased_block_def)

subsection \<open>C3: the status of a phase-set group\<close>

text \<open>
  Claim C3 says that a group whose reads carry both haplotype labels 1 and 2 is emitted
  as biphasic. The detector tests for the strings \<^verbatim>\<open>'1'\<close> and \<^verbatim>\<open>'2'\<close>, while it
  writes the labels of a biphasic block as the integers \<^verbatim>\<open>[1, 2]\<close> and the segment
  materializer compares a read's tag with those integers. With the integer tags 1 and 2,
  one phase set holding a read of each haplotype is emitted as monophasic, labelled with
  the first tag only.
\<close>

theorem integer_tags_never_biphasic:
  "check_phase_blocks
     [\<lparr>reference_start = 100, reference_end = 300, HP = Some (PyInt 1), PS = Some (PyInt 7)\<rparr>,
      \<lparr>reference_start = 200, reference_end = 400, HP = Some (PyInt 2), PS = Some (PyInt 7)\<rparr>]
   = Inr [\<lparr>pb_id = PyInt 7, pb_start = 100, pb_end = 400, pb_phase = [PyInt 1],
           pb_status = ''monophasic''\<rparr>]"
  by (simp add: check_phase_blocks_def get_tag_def block_of_def dict_keys_def)

subsection \<open>C4: the cross-haplotype merge\<close>

text \<open>
  Claim C4 says that the merge of the haplotype-1, haplotype-2 and unphased streams of a
  chromosome yields one stream in coordinate order. \<^verbatim>\<open>merge_haplotypes\<close> has two
  parameters and the body \<^verbatim>\<open>pass\<close>: the call of \<^verbatim>\<open>main\<close>, with three arguments, raises
  \<^verbatim>\<open>TypeError\<close>; a call with two arguments returns \<^verbatim>\<open>None\<close>; and the three
  concatenations of a chromosome without call results followed by the merge end in
  \<^verbatim>\<open>TypeError\<close>.
\<close>

theorem merge_haplotypes_yields_no_stream:
  "merge_haplotypes [h1_vcf, h2_vcf, unph_vcf] = Inl TypeError
   \<and> merge_haplotypes [h1_vcf, h2_vcf] = Inr ArgNone
   \<and> fst (merge_chromosome tool default_output ([], [], []) w) = Inl TypeError"
  by (simp add: merge_haplotypes_def call_positional_def merge_chromosome_def concat_vcf_def
      arg_of_path_def)

subsection \<open>C5: the reads of a read set\<close>

text \<open>
  Claim C5: for a block and each of its labels, in order, the read set written holds
  exactly the reads of the chromosome, in file order, whose span intersects the block's
  span and, unless the label is the unphased one, whose haplotype tag is present and equal
  to the label. A read with another haplotype tag, or with none, is left out of the read
  set of a haplotype label even when it overlaps the block.
\<close>

theorem make_bams_contents:
  "make_bams bam block =
     map (\<lambda>L. if L = PyStr ''u''
               then filter (\<lambda>r. intersects r (pb_start block) (pb_end block)) bam
               else filter (\<lambda>r. intersects r (pb_start block) (pb_end block) \<and> HP r = Some L) bam)
         (pb_phase block)"
  by (auto simp: make_bams_def fetch_def get_tag_def split: option.splits intro!: filter_cong)

text \<open>
  The theorem on four reads and the block \<open>[100, 200)\<close>: with the labels 1 and 2, the
  overlapping read of haplotype 2 is not in the read set of haplotype 1, the untagged
  read is in neither, and the read \<open>[200, 300)\<close> does not intersect; for the unphased
  block over the same span, all three intersecting reads are kept.
\<close>

theorem make_bams_contents_witness:
  "make_bams
     [\<lparr>reference_start = 150, reference_end = 250, HP = Some (PyInt 1), PS = Some (PyInt 7)\<rparr>,
      \<lparr>reference_start = 120, reference_end = 180, HP = Some (PyInt 2), PS = Some (PyInt 7)\<rparr>,
      \<lparr>reference_start = 90, reference_end = 130, HP = None, PS = None\<rparr>,
      \<lparr>reference_start = 200, reference_end = 300, HP = Some (PyInt 1), PS = Some (PyInt 7)\<rparr>]
     \<lparr>pb_id = PyInt 7, pb_start = 100, pb_end = 200, pb_phase = [PyInt 1, PyInt 2],
       pb_status = ''biphasic''\<rparr>
   = [[\<lparr>reference_start = 150, reference_end = 250, HP = Some (PyInt 1), PS = Some (PyInt 7)\<rparr>],
      [\<lparr>reference_start = 120, reference_end = 180, HP = Some (PyInt 2), PS = Some (PyInt 7)\<rparr>]]
   \<and> make_bams
     [\<lparr>reference_start = 150, reference_end = 250, HP = Some (PyInt 1), PS = Some (PyInt 7)\<rparr>,
      \<lparr>reference_start = 120, reference_end = 180, HP = Some (PyInt 2), PS = Some (PyInt 7)\<rparr>,
      \<lparr>reference_start = 90, reference_end = 130, HP = None, PS = None\<rparr>,
      \<lparr>reference_start = 200, reference_end = 300, HP = Some (PyInt 1), PS = Some (PyInt 7)\<rparr>]
     (unphased_block (100, 200))
   = [[\<lparr>reference_start = 150, reference_end = 250, HP = Some (PyInt 1), PS = Some (PyInt 7)\<rparr>,
       \<lparr>reference_start = 120, reference_end = 180, HP = Some (PyInt 2), PS = Some (PyInt 7)\<rparr>,
       \<lparr>reference_start = 90, reference_end = 130, HP = None, PS = None\<rparr>]]"
  by (simp add: make_bams_contents intersects_def unphased_block_def)

subsection \<open>C6: the coverage gate\<close>

text \<open>
  Claim C6: a read set goes to variant calling if and only if its mean depth is at least
  10. Below 10 the accumulator is returned unchanged, whatever the driver would do; from 10
  on the driver is called on the read set with the status of the block, and its result
  file is appended under the label (or its failure ends the run).
\<close>

theorem coverage_gate:
  "(get_coverage tmpbam block < 10 \<longrightarrow>
      gate_step caller get_coverage block tmpbam phase variant_files = Inr variant_files)
   \<and> (10 \<le> get_coverage tmpbam block \<longrightarrow>
      gate_step caller get_coverage block tmpbam phase variant_files =
        (case caller [ArgBam tmpbam, ArgStr (pb_status block)] of
           Inl e \<Rightarrow> Inl e
         | Inr tmpvcf \<Rightarrow> Inr (variant_files(phase := variant_files phase @ [tmpvcf]))))"
  by (simp add: gate_step_def Let_def)

text \<open>
  The theorem at the depths 9.99 and 10.0, with a driver that returns a file: at 9.99
  nothing is stored, at 10.0 the file is stored under the label.
\<close>

theorem coverage_gate_witness:
  "gate_step (\<lambda>_. Inr ''sv.vcf'') (\<lambda>_ _. 999 / 100)
      \<lparr>pb_id = PyInt 7, pb_start = 100, pb_end = 200, pb_phase = [PyInt 1],
        pb_status = ''monophasic''\<rparr>
      [] (PyInt 1) (\<lambda>_. []) = Inr (\<lambda>_. [])
   \<and> gate_step (\<lambda>_. Inr ''sv.vcf'') (\<lambda>_ _. 10)
      \<lparr>pb_id = PyInt 7, pb_start = 100, pb_end = 200, pb_phase = [PyInt 1],
        pb_status = ''monophasic''\<rparr>
      [] (PyInt 1) (\<lambda>_. []) = Inr ((\<lambda>_. [])(PyInt 1 := [''sv.vcf'']))"
  using coverage_gate
     [of "\<lambda>_ _. 999 / 100" "[]"
         "\<lparr>pb_id = PyInt 7, pb_start = 100, pb_end = 200, pb_phase = [PyInt 1],
           pb_status = ''monophasic''\<rparr>"
         "\<lambda>_. Inr ''sv.vcf''" "PyInt 1" "\<lambda>_. []"]
    coverage_gate
     [of "\<lambda>_ _. 10" "[]"
         "\<lparr>pb_id = PyInt 7, pb_start = 100, pb_end = 200, pb_phase = [PyInt 1],
           pb_status = ''monophasic''\<rparr>"
         "\<lambda>_. Inr ''sv.vcf''" "PyInt 1" "\<lambda>_. []"]
  by simp

subsection \<open>C7: no degenerate unphased block\<close>

text \<open>
  Claim C7 as stated fails in its second half, that every unphased block has its start
  before its end: the filter drops the intervals with start equal to end and nothing
  else. For the phased blocks \<open>[100, 200)\<close>, \<open>[200, 300)\<close> (which touch) and
  \<open>[250, 400)\<close> (which overlaps the second) on a chromosome of length 500, nothing is
  emitted between the touching blocks, and the block \<open>(300, 250)\<close> is emitted.
\<close>

theorem reversed_interval_counterexample:
  "get_unphased_blocks
     [\<lparr>pb_id = PyInt 100, pb_start = 100, pb_end = 200, pb_phase = [PyInt 1],
        pb_status = ''monophasic''\<rparr>,
      \<lparr>pb_id = PyInt 200, pb_start = 200, pb_end = 300, pb_phase = [PyInt 1],
        pb_status = ''monophasic''\<rparr>,
      \<lparr>pb_id = PyInt 250, pb_start = 250, pb_end = 400, pb_phase = [PyInt 2],
        pb_status = ''monophasic''\<rparr>]
     500
   = Inr [unphased_block (0, 100), unphased_block (300, 250), unphased_block (400, 500)]
   \<and> \<not> pb_start (unphased_block (300, 250)) < pb_end (unphased_block (300, 250))"
  by (simp add: get_unphased_blocks_def unphased_block_def)

text \<open>
  Claim C7, amended: for every list of phased blocks and every chromosome length the
  complementer returns, and no unphased block it emits has its start equal to its end, so
  that nothing is emitted between two phased blocks that touch. When the chromosome
  length is not negative and the phased blocks are sorted by start, non-empty, within the
  chromosome and pairwise non-overlapping, every unphased block has its start before its
  end.
\<close>

theorem unphased_blocks_never_degenerate:
  "\<exists>unphased. get_unphased_blocks phase_blocks n = Inr unphased
     \<and> (\<forall>u\<in>set unphased. pb_start u \<noteq> pb_end u)
     \<and> (0 \<le> n \<and> sorted (map pb_start phase_blocks) \<and> well_separated phase_blocks n
          \<longrightarrow> (\<forall>u\<in>set unphased. pb_start u < pb_end u))"
proof -
  obtain unphased where u: "get_unphased_blocks phase_blocks n = Inr unphased"
    using get_unphased_blocks_total by blast
  have ne: "\<forall>u\<in>set unphased. pb_start u \<noteq> pb_end u"
    using u get_unphased_blocks_nondegenerate by blast
  have "\<forall>u\<in>set unphased. pb_start u < pb_end u"
    if "0 \<le> n \<and> sorted (map pb_start phase_blocks) \<and> well_separated phase_blocks n"
  proof
    fix v assume v: "v \<in> set unphased"
    from that have c: "chain 0 phase_blocks n"
      by (simp add: well_separated_def chain_of_separated)
    with u have "unphased = sort_key pb_start (map unphased_block
              (filter (\<lambda>interval. fst interval \<noteq> snd interval) (gaps 0 phase_blocks n)))"
      by (simp add: get_unphased_blocks_chain)
    with v obtain s e where se: "(s, e) \<in> set (gaps 0 phase_blocks n)" "v = unphased_block (s, e)"
      by auto
    with c have "s \<le> e" using chain_gaps_ordered by blast
    moreover from ne v se(2) have "s \<noteq> e" by (auto simp: unphased_block_def)
    ultimately show "pb_start v < pb_end v" using se(2) by (simp add: unphased_block_def)
  qed
  with u ne show ?thesis by blast
qed

text \<open>
  The theorem at the touching blocks \<open>[100, 200)\<close> and \<open>[200, 300)\<close> on a chromosome of
  length 500: the unphased blocks are \<open>[0, 100)\<close> and \<open>[300, 500)\<close>.
\<close>

theorem unphased_blocks_never_degenerate_witness:
  "(0::int) \<le> 500
   \<and> sorted (map pb_start
        [\<lparr>pb_id = PyInt 100, pb_start = 100, pb_end = 200, pb_phase = [PyInt 1, PyInt 2],
            pb_status = ''biphasic''\<rparr>,
         \<lparr>pb_id = PyInt 200, pb_start = 200, pb_end = 300, pb_phase = [PyInt 1],
            pb_status = ''monophasic''\<rparr>])
   \<and> well_separated
        [\<lparr>pb_id = PyInt 100, pb_start = 100, pb_end = 200, pb_phase = [PyInt 1, PyInt 2],
            pb_status = ''biphasic''\<rparr>,
         \<lparr>pb_id = PyInt 200, pb_start = 200, pb_end = 300, pb_phase = [PyInt 1],
            pb_status = ''monophasic''\<rparr>] 500
   \<and> get_unphased_blocks
        [\<lparr>pb_id = PyInt 100, pb_start = 100, pb_end = 200, pb_phase = [PyInt 1, PyInt 2],
            pb_status = ''biphasic''\<rparr>,
         \<lparr>pb_id = PyInt 200, pb_start = 200, pb_end = 300, pb_phase = [PyInt 1],
            pb_status = ''monophasic''\<rparr>] 500
     = Inr [unphased_block (0, 100), unphased_block (300, 500)]
   \<and> list_all (\<lambda>u. pb_start u < pb_end u) [unphased_block (0, 100), unphased_block (300, 500)]"
  using unphased_blocks_never_degenerate
     [of "[\<lparr>pb_id = PyInt 100, pb_start = 100, pb_end = 200, pb_phase = [PyInt 1, PyInt 2],
            pb_status = ''biphasic''\<rparr>,
         \<lparr>pb_id = PyInt 200, pb_start = 200, pb_end = 300, pb_phase = [PyInt 1],
            pb_status = ''monophasic''\<rparr>]" 500]
  by (simp add: get_unphased_blocks_def unphased_block_def well_separated_def apart_def)

subsection \<open>C8: concatenating no file\<close>

text \<open>
  Claim C8: on an empty list of call-result files \<^verbatim>\<open>concat_vcf\<close> returns \<^verbatim>\<open>None\<close> and
  leaves the world as it was: the external tool is not invoked and no file is removed,
  whether or not an output path is given.
\<close>

theorem concat_vcf_empty:
  "concat_vcf tool default_output [] output w = (Inr None, w)"
  by (simp add: concat_vcf_def)

subsection \<open>C9: the keys of the accumulator\<close>

text \<open>
  Claim C9 says that the key under which a call-result file of a phased block is stored
  equals the key under which \<^verbatim>\<open>main\<close> reads the list of its haplotype. The stored key is
  the label of the block, which for integer haplotype tags is an integer; the keys read
  are the strings \<^verbatim>\<open>'1'\<close> and \<^verbatim>\<open>'2'\<close>. For one read \<open>[0, 200)\<close> of haplotype 1 on a
  chromosome of length 200, a depth of 30 and a driver that returns the file
  \<^verbatim>\<open>sv.vcf\<close>, the three lists handed to the concatenation are empty, while the file
  stands under the integer key 1. With the driver as the program calls it, the run ends
  with \<^verbatim>\<open>TypeError\<close> before anything is stored.
\<close>

theorem integer_labels_miss_string_keys:
  "haplotype_lists (\<lambda>_. Inr ''sv.vcf'') (\<lambda>_ _. 30)
     [\<lparr>reference_start = 0, reference_end = 200, HP = Some (PyInt 1), PS = Some (PyInt 7)\<rparr>] 200
   = Inr ([], [], [])
   \<and> (case accumulate (\<lambda>_. Inr ''sv.vcf'') (\<lambda>_ _. 30)
             [\<lparr>reference_start = 0, reference_end = 200, HP = Some (PyInt 1),
               PS = Some (PyInt 7)\<rparr>] 200 of
         Inl e \<Rightarrow> []
       | Inr variant_files \<Rightarrow> variant_files (PyInt 1)) = [''sv.vcf'']
   \<and> accumulate sniffles (\<lambda>_ _. 30)
         [\<lparr>reference_start = 0, reference_end = 200, HP = Some (PyInt 1), PS = Some (PyInt 7)\<rparr>] 200
       = Inl TypeError"
  by (simp add: haplotype_lists_def accumulate_def check_phase_blocks_def get_tag_def block_of_def
      dict_keys_def get_unphased_blocks_def make_bams_def gate_step_def fetch_def intersects_def
      sniffles_def call_positional_def)

subsection \<open>C10: the default output path\<close>

text \<open>
  Claim C10: the default output path is the one value computed when \<^verbatim>\<open>concat_vcf\<close> is
  defined. Any two calls that omit the output argument and return a path return that
  path, whatever their input files and whatever has happened in between; a call creates
  no temporary file of its own.
\<close>

theorem concat_vcf_default_output_shared:
  assumes "fst (concat_vcf tool default_output vcfs1 None w1) = Inr (Some p1)"
    and "fst (concat_vcf tool default_output vcfs2 None w2) = Inr (Some p2)"
  shows "p1 = default_output \<and> p2 = default_output
         \<and> tmp_count (snd (concat_vcf tool default_output vcfs1 None w1)) = tmp_count w1"
  using assms by (auto simp: concat_vcf_def Let_def split: if_splits)

text \<open>
  The theorem at two calls: the definition of the function in a fresh world fixes the
  path \<^verbatim>\<open>/tmp/tmp0.vcf\<close>; a call after four temporary files and a call after nine both
  return it.
\<close>

theorem concat_vcf_default_output_shared_witness:
  "define_concat_vcf \<lparr>tmp_count = 0, invoked = [], removed = []\<rparr>
     = (''/tmp/tmp0.vcf'', \<lparr>tmp_count = 1, invoked = [], removed = []\<rparr>)
   \<and> fst (concat_vcf (\<lambda>_ _. True) ''/tmp/tmp0.vcf'' [Some ''/tmp/tmp3.vcf''] None
            \<lparr>tmp_count = 4, invoked = [], removed = []\<rparr>) = Inr (Some ''/tmp/tmp0.vcf'')
   \<and> fst (concat_vcf (\<lambda>_ _. True) ''/tmp/tmp0.vcf''
            [Some ''/tmp/tmp6.vcf'', Some ''/tmp/tmp8.vcf''] None
            \<lparr>tmp_count = 9, invoked = [([''/tmp/tmp3.vcf''], ''/tmp/tmp0.vcf'')],
              removed = [''/tmp/tmp3.vcf'']\<rparr>) = Inr (Some ''/tmp/tmp0.vcf'')"
proof -
  have a: "fst (concat_vcf (\<lambda>_ _. True) ''/tmp/tmp0.vcf'' [Some ''/tmp/tmp3.vcf''] None
            \<lparr>tmp_count = 4, invoked = [], removed = []\<rparr>) = Inr (Some ''/tmp/tmp0.vcf'')"
    by (simp add: concat_vcf_def Let_def)
  have b: "fst (concat_vcf (\<lambda>_ _. True) ''/tmp/tmp0.vcf''
            [Some ''/tmp/tmp6.vcf'', Some ''/tmp/tmp8.vcf''] None
            \<lparr>tmp_count = 9, invoked = [([''/tmp/tmp3.vcf''], ''/tmp/tmp0.vcf'')],
              removed = [''/tmp/tmp3.vcf'']\<rparr>) = Inr (Some ''/tmp/tmp0.vcf'')"
    by (simp add: concat_vcf_def Let_def)
  have c: "define_concat_vcf \<lparr>tmp_count = 0, invoked = [], removed = []\<rparr>
     = (''/tmp/tmp0.vcf'', \<lparr>tmp_count = 1, invoked = [], removed = []\<rparr>)"
    by code_simp
  from concat_vcf_default_output_shared[OF a b] a b c show ?thesis by simp
qed

end
